theory Spec2Isabelle
  imports Complex_Main
begin

section \<open>Data model\<close>

text \<open>
  A node is a Python dictionary loaded from the configuration. The fields read by the
  failover logic are kept as record fields.
  \<^item> \<open>failover_order\<close> is optional: \<open>None\<close> is a dictionary without the key
    \<^verbatim>\<open>failover_order\<close>, for which \<^verbatim>\<open>node.get("failover_order")\<close> is Python's None.
  \<^item> \<open>role\<close> is the string stored under \<^verbatim>\<open>role\<close>; the code only ever compares it
    with \<^verbatim>\<open>"leader"\<close>, so a missing key behaves as any other string.
  \<^item> \<open>healthy\<close> is the flag written by the health check of every cycle; it is read
    by truthiness, so a missing key behaves as \<open>False\<close>.
\<close>

record node =
  name :: string
  host :: string
  port :: int
  failover_order :: "int option"
  role :: string
  healthy :: bool

text \<open>
  The settings read in \<^verbatim>\<open>main\<close> that the decision depends on. Times are seconds,
  modelled as real numbers (the source uses Python floats from \<^verbatim>\<open>time.time()\<close>).
\<close>

record config =
  promotion_cooldown :: real
  failback_enabled :: bool
  replication_command_valid :: bool

text \<open>
  \<open>replication_command_valid\<close> says whether the setting \<^verbatim>\<open>replication_command\<close> is a
  template that \<^verbatim>\<open>str.format\<close> accepts with the six named arguments it is given. It is
  not when the template names another field, has a positional field or an unbalanced
  brace, or when the setting is missing (\<^verbatim>\<open>config.get\<close> then gives None).
\<close>

text \<open>The variables \<^verbatim>\<open>nodes\<close> and \<^verbatim>\<open>last_promotion_time\<close> that live across cycles.\<close>

record state =
  nodes :: "node list"
  last_promotion_time :: real

text \<open>
  A shell command is represented by the arguments substituted into its template:
  \<^verbatim>\<open>promotion_command.format(name, host, port)\<close> and
  \<^verbatim>\<open>replication_command.format(name, host, port, leader_name, leader_host, leader_port)\<close>.
\<close>

datatype command =
  PromotionCmd string string int
| ReplicationCmd string string int string string int

text \<open>
  The shell: whether a command exits with status 0, and whether the output captured from
  it for the log line (its standard output when it succeeds, its standard error when it
  fails) is valid UTF-8, so that \<^verbatim>\<open>decode()\<close> returns.
\<close>

record shell =
  exit_ok :: "command \<Rightarrow> bool"
  output_decodes :: "command \<Rightarrow> bool"

text \<open>
  The exceptions of the modelled code that nothing catches: \<^verbatim>\<open>None < 1\<close> is a
  \<^verbatim>\<open>TypeError\<close> in Python 3; \<open>TemplateError\<close> stands for what \<^verbatim>\<open>str.format\<close> raises
  on a template it does not accept (\<^verbatim>\<open>KeyError\<close>, \<^verbatim>\<open>IndexError\<close>, \<^verbatim>\<open>ValueError\<close>, or
  \<^verbatim>\<open>AttributeError\<close> on None); \<^verbatim>\<open>UnicodeDecodeError\<close> is raised by \<^verbatim>\<open>decode()\<close> on
  bytes that are not UTF-8.
\<close>

datatype error = TypeError | TemplateError | UnicodeDecodeError

text \<open>
  The variable \<^verbatim>\<open>reason\<close> of \<^verbatim>\<open>main\<close>: the empty string, the text for an
  unhealthy (or missing) leader, or the text for a failback.
\<close>

datatype reason = NoReason | LeaderUnhealthy | Failback

text \<open>
  What one iteration of the loop of \<^verbatim>\<open>main\<close> leaves behind: the state, the flag
  \<^verbatim>\<open>promotion_needed\<close> with its reason, the commands run, in order, each with
  whether it exited successfully, and the exception that ended the iteration in the
  middle of the reconfiguration loop, if one did (the state and the commands are then
  those reached when it was raised; nothing catches it and the process ends).
\<close>

record outcome =
  new_state :: state
  promotion_needed :: bool
  promotion_reason :: reason
  executed :: "(command \<times> bool) list"
  raised :: "error option"

section \<open>Operations\<close>

text \<open>The sort key \<^verbatim>\<open>lambda n: n.get("failover_order", 9999)\<close>.\<close>

definition order_key :: "node \<Rightarrow> int" where
  "order_key n = (case failover_order n of None \<Rightarrow> 9999 | Some k \<Rightarrow> k)"

text \<open>
  \<^verbatim>\<open>get_current_leader\<close>. Python's \<^verbatim>\<open>list.sort\<close> is stable, and so is
  \<^const>\<open>sort_key\<close>; the sorted list is read at index 0 only after the emptiness test.
\<close>

definition get_current_leader :: "node list \<Rightarrow> node option" where
  "get_current_leader ns =
     (let leaders = filter (\<lambda>n. role n = ''leader'') ns
      in if leaders = [] then None else Some (hd (sort_key order_key leaders)))"

text \<open>\<^verbatim>\<open>get_best_candidate\<close>.\<close>

definition get_best_candidate :: "node list \<Rightarrow> node option" where
  "get_best_candidate ns =
     (let healthy_nodes = filter healthy ns
      in if healthy_nodes = [] then None else Some (hd (sort_key order_key healthy_nodes)))"

text \<open>\<^verbatim>\<open>update_roles\<close>: the loop assigns a role to every node, in place.\<close>

fun update_roles :: "node list \<Rightarrow> string \<Rightarrow> node list" where
  "update_roles [] new_leader_name = []"
| "update_roles (n # ns) new_leader_name =
     (if name n = new_leader_name then n\<lparr>role := ''leader''\<rparr> else n\<lparr>role := ''replica''\<rparr>)
     # update_roles ns new_leader_name"

text \<open>
  The health loop at the head of every cycle; \<open>probe\<close> stands for
  \<^verbatim>\<open>check_node_health(node, connection_timeout)\<close>, which never raises.
\<close>

fun update_health :: "(node \<Rightarrow> bool) \<Rightarrow> node list \<Rightarrow> node list" where
  "update_health probe [] = []"
| "update_health probe (n # ns) = n\<lparr>healthy := probe n\<rparr> # update_health probe ns"

text \<open>
  \<^verbatim>\<open>promote_node\<close>: \<open>run\<close> stands for the shell; the result is \<open>True\<close> when the
  command exits with status 0 and \<open>False\<close> when \<^verbatim>\<open>CalledProcessError\<close> is caught.
  These are the calls that return, and the value is what \<^verbatim>\<open>main\<close> branches on.
\<close>

definition promotion_cmd :: "node \<Rightarrow> command" where
  "promotion_cmd n = PromotionCmd (name n) (host n) (port n)"

definition promote_node :: "shell \<Rightarrow> node \<Rightarrow> bool" where
  "promote_node run n = exit_ok run (promotion_cmd n)"

text \<open>
  \<^verbatim>\<open>reconfigure_replication\<close> returns nothing; the model returns the command it ran
  with its exit status (no command when the template could not be formatted) and the
  exception it raised, if any. The template is formatted before the \<^verbatim>\<open>try\<close>, so a
  template that \<^verbatim>\<open>str.format\<close> refuses raises at once. The command is then run, and
  its failure (\<^verbatim>\<open>CalledProcessError\<close>) is caught; but both the success branch and the
  handler decode the captured output for their log line, and a \<^verbatim>\<open>UnicodeDecodeError\<close>
  raised there is caught by nothing.
\<close>

definition replication_cmd :: "node \<Rightarrow> node \<Rightarrow> command" where
  "replication_cmd new_leader n =
     ReplicationCmd (name n) (host n) (port n) (name new_leader) (host new_leader) (port new_leader)"

definition reconfigure_replication ::
  "shell \<Rightarrow> bool \<Rightarrow> node \<Rightarrow> node \<Rightarrow> (command \<times> bool) list \<times> error option" where
  "reconfigure_replication run template_valid new_leader n =
     (if \<not> template_valid then ([], Some TemplateError)
      else
        (let cmd = replication_cmd new_leader n
         in ([(cmd, exit_ok run cmd)],
             if output_decodes run cmd then None else Some UnicodeDecodeError)))"

text \<open>
  The loop of \<^verbatim>\<open>main\<close> over the nodes after a successful promotion: every node that
  is healthy and whose name is not the new leader's is reconfigured, in list order; an
  exception leaves the loop, and the nodes after it are not visited.
\<close>

fun dispatch_replication ::
  "shell \<Rightarrow> bool \<Rightarrow> node \<Rightarrow> node list \<Rightarrow> (command \<times> bool) list \<times> error option" where
  "dispatch_replication run template_valid new_leader [] = ([], None)"
| "dispatch_replication run template_valid new_leader (n # ns) =
     (if name n \<noteq> name new_leader \<and> healthy n then
        (case reconfigure_replication run template_valid new_leader n of
           (cmds, Some e) \<Rightarrow> (cmds, Some e)
         | (cmds, None) \<Rightarrow>
             (case dispatch_replication run template_valid new_leader ns of
                (rest, e) \<Rightarrow> (cmds @ rest, e)))
      else dispatch_replication run template_valid new_leader ns)"

text \<open>
  The comparison \<^verbatim>\<open>best_candidate.get("failover_order") < current_leader.get("failover_order")\<close>:
  neither side has a default, and comparing with None raises.
\<close>

definition order_less :: "int option \<Rightarrow> int option \<Rightarrow> error + bool" where
  "order_less a b =
     (case a of None \<Rightarrow> Inl TypeError
      | Some x \<Rightarrow> (case b of None \<Rightarrow> Inl TypeError | Some y \<Rightarrow> Inr (x < y)))"

text \<open>
  The decision of \<^verbatim>\<open>main\<close> (the assignments to \<^verbatim>\<open>promotion_needed\<close> and
  \<^verbatim>\<open>reason\<close>): the leader-down branch first, the failback branch otherwise.
\<close>

definition leader_down_decision :: "node option \<Rightarrow> error + bool \<times> reason" where
  "leader_down_decision best_candidate =
     (case best_candidate of
        Some b \<Rightarrow> Inr (True, LeaderUnhealthy)
      | None \<Rightarrow> Inr (False, NoReason))"

definition failback_decision ::
  "config \<Rightarrow> real \<Rightarrow> real \<Rightarrow> node \<Rightarrow> node option \<Rightarrow> error + bool \<times> reason" where
  "failback_decision cfg current_time last_time leader best_candidate =
     (if failback_enabled cfg then
        (case best_candidate of
           None \<Rightarrow> Inr (False, NoReason)
         | Some b \<Rightarrow>
             (case order_less (failover_order b) (failover_order leader) of
                Inl e \<Rightarrow> Inl e
              | Inr lower \<Rightarrow>
                  if lower then
                    (if current_time - last_time \<ge> promotion_cooldown cfg
                     then Inr (True, Failback)
                     else Inr (False, NoReason))
                  else Inr (False, NoReason)))
      else Inr (False, NoReason))"

definition decide_promotion ::
  "config \<Rightarrow> real \<Rightarrow> real \<Rightarrow> node option \<Rightarrow> node option \<Rightarrow> error + bool \<times> reason" where
  "decide_promotion cfg current_time last_time current_leader best_candidate =
     (case current_leader of
        None \<Rightarrow> leader_down_decision best_candidate
      | Some leader \<Rightarrow>
          if \<not> healthy leader then leader_down_decision best_candidate
          else failback_decision cfg current_time last_time leader best_candidate)"

text \<open>
  The action of \<^verbatim>\<open>main\<close> once the decision is taken: the promotion command, and on
  its success the role update, the clock reset and the reconfiguration of every other
  healthy node. The reconfiguration commands read only the name, host and port of the
  new leader, which the role update leaves as they were.
\<close>

definition perform_promotion ::
  "config \<Rightarrow> shell \<Rightarrow> real \<Rightarrow> node list \<Rightarrow> real \<Rightarrow> bool \<Rightarrow> reason \<Rightarrow> node option \<Rightarrow> outcome" where
  "perform_promotion cfg run current_time ns last_time needed why best_candidate =
     (let idle = \<lparr>new_state = \<lparr>nodes = ns, last_promotion_time = last_time\<rparr>,
                  promotion_needed = needed, promotion_reason = why, executed = [],
                  raised = None\<rparr>
      in if needed then
           (case best_candidate of
              None \<Rightarrow> idle
            | Some b \<Rightarrow>
                if promote_node run b then
                  (let ns' = update_roles ns (name b)
                   in case dispatch_replication run (replication_command_valid cfg) b ns' of
                        (cmds, e) \<Rightarrow>
                          \<lparr>new_state = \<lparr>nodes = ns', last_promotion_time = current_time\<rparr>,
                           promotion_needed = needed, promotion_reason = why,
                           executed = (promotion_cmd b, True) # cmds, raised = e\<rparr>)
                else
                  \<lparr>new_state = \<lparr>nodes = ns, last_promotion_time = last_time\<rparr>,
                   promotion_needed = needed, promotion_reason = why,
                   executed = [(promotion_cmd b, False)], raised = None\<rparr>)
         else idle)"

text \<open>
  One iteration of the \<^verbatim>\<open>while True\<close> loop of \<^verbatim>\<open>main\<close>, up to the sleep. The
  result is \<open>Inl\<close> when the decision raises, before anything is run or changed.
\<close>

definition main_cycle ::
  "config \<Rightarrow> (node \<Rightarrow> bool) \<Rightarrow> shell \<Rightarrow> real \<Rightarrow> state \<Rightarrow> error + outcome" where
  "main_cycle cfg probe run current_time s =
     (let ns = update_health probe (nodes s);
          current_leader = get_current_leader ns;
          best_candidate = get_best_candidate ns
      in case decide_promotion cfg current_time (last_promotion_time s)
                current_leader best_candidate of
           Inl e \<Rightarrow> Inl e
         | Inr (needed, why) \<Rightarrow>
             Inr (perform_promotion cfg run current_time ns (last_promotion_time s)
                    needed why best_candidate))"


section \<open>Specification vocabulary\<close>

text \<open>
  \<open>first_lowest P f xs m\<close>: the element \<open>m\<close> occurs in \<open>xs\<close>, satisfies \<open>P\<close>, has a
  key strictly below every earlier element satisfying \<open>P\<close> and at most the key of every
  later one. It is the first element of lowest key among those satisfying \<open>P\<close>.
\<close>

definition first_lowest :: "('a \<Rightarrow> bool) \<Rightarrow> ('a \<Rightarrow> int) \<Rightarrow> 'a list \<Rightarrow> 'a \<Rightarrow> bool" where
  "first_lowest P f xs m \<longleftrightarrow>
     (\<exists>pre post. xs = pre @ m # post \<and> P m \<and>
        (\<forall>y\<in>set pre. P y \<longrightarrow> f m < f y) \<and> (\<forall>y\<in>set post. P y \<longrightarrow> f m \<le> f y))"

text \<open>The test \<^verbatim>\<open>node.get("role") == "leader"\<close>.\<close>

abbreviation is_leader :: "node \<Rightarrow> bool" where
  "is_leader n \<equiv> role n = ''leader''"

text \<open>
  What a cycle asked for. A cycle that raises has requested nothing.
\<close>

definition promotion_requested :: "error + outcome \<Rightarrow> bool" where
  "promotion_requested res = (case res of Inl e \<Rightarrow> False | Inr r \<Rightarrow> promotion_needed r)"

definition failback_requested :: "error + outcome \<Rightarrow> bool" where
  "failback_requested res =
     (case res of Inl e \<Rightarrow> False | Inr r \<Rightarrow> promotion_needed r \<and> promotion_reason r = Failback)"

text \<open>
  The promotion command of a cycle, when one runs, is the first command run; the
  promotion succeeded when that command exited successfully.
\<close>

definition promotion_succeeded :: "outcome \<Rightarrow> bool" where
  "promotion_succeeded r = (case executed r of [] \<Rightarrow> False | (c, ok) # rest \<Rightarrow> ok)"

section \<open>Example clusters\<close>

text \<open>
  The three nodes of the default configuration (the first one down, the others up),
  a leader without \<^verbatim>\<open>failover_order\<close> and a leader with the explicit order 9999.
\<close>

definition node1 :: node where
  "node1 = \<lparr>name = ''node1'', host = ''127.0.0.1'', port = 5432, failover_order = Some 1,
            role = ''leader'', healthy = False\<rparr>"

definition node2 :: node where
  "node2 = \<lparr>name = ''node2'', host = ''127.0.0.2'', port = 5432, failover_order = Some 2,
            role = ''replica'', healthy = True\<rparr>"

definition node3 :: node where
  "node3 = \<lparr>name = ''node3'', host = ''127.0.0.3'', port = 5432, failover_order = Some 3,
            role = ''replica'', healthy = True\<rparr>"

definition node4 :: node where
  "node4 = \<lparr>name = ''node4'', host = ''127.0.0.4'', port = 5432, failover_order = None,
            role = ''leader'', healthy = True\<rparr>"

definition node5 :: node where
  "node5 = \<lparr>name = ''node5'', host = ''127.0.0.5'', port = 5432, failover_order = Some 9999,
            role = ''leader'', healthy = True\<rparr>"

text \<open>A healthy-to-be replica of higher priority than every node above.\<close>

definition node0 :: node where
  "node0 = \<lparr>name = ''node0'', host = ''127.0.0.9'', port = 5432, failover_order = Some 0,
            role = ''replica'', healthy = False\<rparr>"

text \<open>The default settings: a cooldown of 30 seconds, failback enabled.\<close>

definition cfg0 :: config where
  "cfg0 = \<lparr>promotion_cooldown = 30, failback_enabled = True,
            replication_command_valid = True\<rparr>"

text \<open>Health checks: every node answers; every node but \<^verbatim>\<open>node1\<close> answers.\<close>

definition all_up :: "node \<Rightarrow> bool" where
  "all_up n = True"

definition all_but_node1 :: "node \<Rightarrow> bool" where
  "all_but_node1 n = (name n \<noteq> ''node1'')"

text \<open>
  Shells whose output always decodes: every command succeeds; every command fails; the
  promotion succeeds and every reconfiguration fails.
\<close>

definition is_promotion :: "command \<Rightarrow> bool" where
  "is_promotion c =
     (case c of PromotionCmd n h p \<Rightarrow> True
      | ReplicationCmd n h p leader_n leader_h leader_p \<Rightarrow> False)"

definition always :: "command \<Rightarrow> bool" where
  "always c = True"

definition never :: "command \<Rightarrow> bool" where
  "never c = False"

definition run_ok :: shell where
  "run_ok = \<lparr>exit_ok = always, output_decodes = always\<rparr>"

definition run_fail :: shell where
  "run_fail = \<lparr>exit_ok = never, output_decodes = always\<rparr>"

definition run_promotion_only :: shell where
  "run_promotion_only = \<lparr>exit_ok = is_promotion, output_decodes = always\<rparr>"

text \<open>
  A shell on which the promotion succeeds and every reconfiguration fails with an error
  message that is not UTF-8 (a message in a Latin-1 locale, say).
\<close>

definition run_garbled :: shell where
  "run_garbled = \<lparr>exit_ok = is_promotion, output_decodes = is_promotion\<rparr>"

text \<open>
  The default cluster five seconds after a promotion (its leader \<^verbatim>\<open>node1\<close> is the node
  that \<^const>\<open>all_but_node1\<close> reports down), and a cluster whose leader has a replica of
  higher priority beside it.
\<close>

definition leader_down_cluster :: state where
  "leader_down_cluster = \<lparr>nodes = [node1, node2, node3], last_promotion_time = 95\<rparr>"

definition failback_cluster :: state where
  "failback_cluster = \<lparr>nodes = [node1, node0], last_promotion_time = 0\<rparr>"

text \<open>
  The outcomes of a cycle at time 100 on \<^const>\<open>leader_down_cluster\<close>: when the promotion
  command fails, and when it succeeds (the reconfiguration of \<^verbatim>\<open>node3\<close> succeeding or
  not).
\<close>

definition failed_outcome :: outcome where
  "failed_outcome =
     \<lparr>new_state = \<lparr>nodes = [node1, node2, node3], last_promotion_time = 95\<rparr>,
      promotion_needed = True, promotion_reason = LeaderUnhealthy,
      executed = [(PromotionCmd ''node2'' ''127.0.0.2'' 5432, False)], raised = None\<rparr>"

definition promoted_state :: state where
  "promoted_state =
     \<lparr>nodes = [node1\<lparr>role := ''replica''\<rparr>, node2\<lparr>role := ''leader''\<rparr>, node3],
      last_promotion_time = 100\<rparr>"

definition promoted_outcome :: "bool \<Rightarrow> outcome" where
  "promoted_outcome reconfigured =
     \<lparr>new_state = promoted_state,
      promotion_needed = True, promotion_reason = LeaderUnhealthy,
      executed = [(PromotionCmd ''node2'' ''127.0.0.2'' 5432, True),
                  (ReplicationCmd ''node3'' ''127.0.0.3'' 5432 ''node2'' ''127.0.0.2'' 5432,
                   reconfigured)],
      raised = None\<rparr>"

text \<open>
  A cluster whose leader \<^verbatim>\<open>node1\<close> was promoted at time 100 and has the higher-priority
  \<^verbatim>\<open>node0\<close> beside it, and the outcome of a cycle at time 125 with every node up.
\<close>

definition waiting_cluster :: state where
  "waiting_cluster = \<lparr>nodes = [node1, node0], last_promotion_time = 100\<rparr>"

definition blocked_outcome :: outcome where
  "blocked_outcome =
     \<lparr>new_state = \<lparr>nodes = [node1\<lparr>healthy := True\<rparr>, node0\<lparr>healthy := True\<rparr>],
                    last_promotion_time = 100\<rparr>,
      promotion_needed = False, promotion_reason = NoReason, executed = [], raised = None\<rparr>"

text \<open>
  A cluster of four whose leader \<^verbatim>\<open>node1\<close> is the node that \<^const>\<open>all_but_node1\<close> reports
  down: \<^verbatim>\<open>node0\<close> is promoted, and \<^verbatim>\<open>node2\<close> and \<^verbatim>\<open>node3\<close> are to be reconfigured.
  The outcome of a cycle at time 100 on it, with the shell \<^const>\<open>run_garbled\<close>.
\<close>

definition four_node_cluster :: state where
  "four_node_cluster = \<lparr>nodes = [node1, node0, node2, node3], last_promotion_time = 0\<rparr>"

definition aborted_outcome :: outcome where
  "aborted_outcome =
     \<lparr>new_state =
        \<lparr>nodes = [node1\<lparr>role := ''replica''\<rparr>, node0\<lparr>role := ''leader'', healthy := True\<rparr>,
                  node2, node3],
         last_promotion_time = 100\<rparr>,
      promotion_needed = True, promotion_reason = LeaderUnhealthy,
      executed = [(PromotionCmd ''node0'' ''127.0.0.9'' 5432, True),
                  (ReplicationCmd ''node2'' ''127.0.0.2'' 5432 ''node0'' ''127.0.0.9'' 5432,
                   False)],
      raised = Some UnicodeDecodeError\<rparr>"

section \<open>Selecting the first element of lowest key\<close>

lemma hd_insort_key:
  "hd (insort_key f x ys) = (if ys = [] \<or> f x \<le> f (hd ys) then x else hd ys)"
  by (cases ys) auto

lemma sort_key_Nil_iff: "sort_key f xs = [] \<longleftrightarrow> xs = []"
  by (metis length_0_conv length_sort)

lemma first_lowest_Cons_skip:
  "\<not> P x \<Longrightarrow> first_lowest P f xs m \<Longrightarrow> first_lowest P f (x # xs) m"
  unfolding first_lowest_def
  by (elim exE conjE, rule_tac x = "x # pre" in exI, rule_tac x = post in exI) simp

lemma first_lowest_Cons_later:
  "f m < f x \<Longrightarrow> first_lowest P f xs m \<Longrightarrow> first_lowest P f (x # xs) m"
  unfolding first_lowest_def
  by (elim exE conjE, rule_tac x = "x # pre" in exI, rule_tac x = post in exI) simp

lemma first_lowest_lower_bound:
  "first_lowest P f xs m \<Longrightarrow> y \<in> set xs \<Longrightarrow> P y \<Longrightarrow> f m \<le> f y"
  unfolding first_lowest_def by (auto simp: less_imp_le)

lemma first_lowest_Cons_here:
  assumes "P x" and "\<forall>y\<in>set xs. P y \<longrightarrow> f x \<le> f y"
  shows "first_lowest P f (x # xs) x"
  unfolding first_lowest_def
  by (rule exI [of _ "[]"], rule exI [of _ xs]) (use assms in simp)

lemma hd_sort_filter_first_lowest:
  "filter P xs \<noteq> [] \<Longrightarrow> first_lowest P f xs (hd (sort_key f (filter P xs)))"
proof (induction xs)
  case Nil
  then show ?case by simp
next
  case (Cons x xs)
  show ?case
  proof (cases "P x")
    case False
    with Cons show ?thesis by (simp add: first_lowest_Cons_skip)
  next
    case True
    show ?thesis
    proof (cases "filter P xs = []")
      case True
      then have "\<forall>y\<in>set xs. P y \<longrightarrow> f x \<le> f y" by (simp add: filter_empty_conv)
      with \<open>P x\<close> True show ?thesis by (simp add: first_lowest_Cons_here)
    next
      case False
      let ?m = "hd (sort_key f (filter P xs))"
      have IH: "first_lowest P f xs ?m" using Cons.IH False by simp
      have ne: "sort_key f (filter P xs) \<noteq> []" using False by (simp add: sort_key_Nil_iff)
      have hd_eq: "hd (sort_key f (filter P (x # xs))) = (if f x \<le> f ?m then x else ?m)"
        using \<open>P x\<close> ne by (simp add: hd_insort_key)
      show ?thesis
      proof (cases "f x \<le> f ?m")
        case True
        have "\<forall>y\<in>set xs. P y \<longrightarrow> f x \<le> f y"
          using first_lowest_lower_bound [OF IH] True by (blast intro: order_trans)
        with \<open>P x\<close> True hd_eq show ?thesis by (simp add: first_lowest_Cons_here)
      next
        case False
        then have "f ?m < f x" by simp
        with IH hd_eq show ?thesis by (simp add: first_lowest_Cons_later)
      qed
    qed
  qed
qed

lemma first_lowest_unique:
  "first_lowest P f xs m \<Longrightarrow> first_lowest P f xs m' \<Longrightarrow> m = m'"
proof (induction xs)
  case Nil
  then show ?case by (simp add: first_lowest_def)
next
  case (Cons x xs)
  from Cons.prems(1) obtain pre post where
    s: "x # xs = pre @ m # post" "P m"
       "\<forall>y\<in>set pre. P y \<longrightarrow> f m < f y" "\<forall>y\<in>set post. P y \<longrightarrow> f m \<le> f y"
    unfolding first_lowest_def by blast
  from Cons.prems(2) obtain pre' post' where
    s': "x # xs = pre' @ m' # post'" "P m'"
       "\<forall>y\<in>set pre'. P y \<longrightarrow> f m' < f y" "\<forall>y\<in>set post'. P y \<longrightarrow> f m' \<le> f y"
    unfolding first_lowest_def by blast
  show ?case
  proof (cases pre)
    case Nil
    note pNil = Nil
    show ?thesis
    proof (cases pre')
      case Nil
      with pNil s(1) s'(1) show ?thesis by simp
    next
      case (Cons a as)
      with pNil s(1) s'(1) have "a = m" "post = as @ m' # post'" by simp_all
      then have "f m' < f m" "f m \<le> f m'" using s s' Cons by auto
      then show ?thesis by simp
    qed
  next
    case (Cons a as)
    note pCons = Cons
    show ?thesis
    proof (cases pre')
      case Nil
      with pCons s(1) s'(1) have "a = m'" "post' = as @ m # post" by simp_all
      then have "f m < f m'" "f m' \<le> f m" using s s' pCons by auto
      then show ?thesis by simp
    next
      case (Cons a' as')
      have "first_lowest P f xs m"
        unfolding first_lowest_def using s pCons by (intro exI [of _ as] exI [of _ post]) simp
      moreover have "first_lowest P f xs m'"
        unfolding first_lowest_def using s' Cons by (intro exI [of _ as'] exI [of _ post']) simp
      ultimately show ?thesis by (rule Cons.IH)
    qed
  qed
qed

lemma hd_sort_filter_iff:
  "filter P xs \<noteq> [] \<Longrightarrow> hd (sort_key f (filter P xs)) = m \<longleftrightarrow> first_lowest P f xs m"
  using hd_sort_filter_first_lowest first_lowest_unique by metis

lemma first_lowest_filter_nonempty: "first_lowest P f xs m \<Longrightarrow> filter P xs \<noteq> []"
  unfolding first_lowest_def by (auto simp: filter_empty_conv)

lemma get_best_candidate_iff:
  "get_best_candidate ns = Some b \<longleftrightarrow> first_lowest healthy order_key ns b"
  using hd_sort_filter_iff [of healthy ns order_key b] first_lowest_filter_nonempty [of healthy order_key ns b]
  by (auto simp: get_best_candidate_def Let_def)

lemma get_best_candidate_None_iff:
  "get_best_candidate ns = None \<longleftrightarrow> (\<forall>n\<in>set ns. \<not> healthy n)"
  by (auto simp: get_best_candidate_def Let_def filter_empty_conv)

lemma get_current_leader_iff:
  "get_current_leader ns = Some l \<longleftrightarrow> first_lowest is_leader order_key ns l"
  using hd_sort_filter_iff [of is_leader ns order_key l] first_lowest_filter_nonempty [of is_leader order_key ns l]
  by (auto simp: get_current_leader_def Let_def)

section \<open>Role and health updates\<close>

lemma update_roles_map:
  "update_roles ns nm =
     map (\<lambda>n. if name n = nm then n\<lparr>role := ''leader''\<rparr> else n\<lparr>role := ''replica''\<rparr>) ns"
  by (induction ns) simp_all

lemma map_name_update_roles: "map name (update_roles ns nm) = map name ns"
  by (induction ns) simp_all

lemma filter_leader_update_roles_absent:
  "nm \<notin> name ` set ns \<Longrightarrow> filter is_leader (update_roles ns nm) = []"
  by (induction ns) auto

lemma length_filter_leader_update_roles:
  "distinct (map name ns) \<Longrightarrow>
   length (filter is_leader (update_roles ns nm)) = (if nm \<in> name ` set ns then 1 else 0)"
  by (induction ns) (auto simp: filter_leader_update_roles_absent)

lemma role_update_roles:
  "n \<in> set (update_roles ns nm) \<Longrightarrow> role n = (if name n = nm then ''leader'' else ''replica'')"
  by (induction ns) (auto split: if_splits)

lemma is_leader_update_roles:
  "n \<in> set (update_roles ns nm) \<Longrightarrow> role n = ''leader'' \<longleftrightarrow> name n = nm"
  by (simp add: role_update_roles)

lemma is_replica_update_roles:
  "n \<in> set (update_roles ns nm) \<Longrightarrow> name n \<noteq> nm \<Longrightarrow> role n = ''replica''"
  by (simp add: role_update_roles)

section \<open>One cycle of the control loop\<close>

lemma best_candidate_healthy: "get_best_candidate ns = Some b \<Longrightarrow> healthy b"
  by (auto simp: get_best_candidate_iff first_lowest_def)

lemma best_candidate_member: "get_best_candidate ns = Some b \<Longrightarrow> b \<in> set ns"
  by (auto simp: get_best_candidate_iff first_lowest_def)

lemma best_candidate_lowest:
  "get_best_candidate ns = Some b \<Longrightarrow> n \<in> set ns \<Longrightarrow> healthy n \<Longrightarrow> order_key b \<le> order_key n"
  by (simp add: get_best_candidate_iff first_lowest_lower_bound)

lemma current_leader_member: "get_current_leader ns = Some l \<Longrightarrow> l \<in> set ns"
  by (auto simp: get_current_leader_iff first_lowest_def)

lemma current_leader_lowest:
  "get_current_leader ns = Some l \<Longrightarrow> n \<in> set ns \<Longrightarrow> is_leader n \<Longrightarrow> order_key l \<le> order_key n"
  by (simp add: get_current_leader_iff first_lowest_lower_bound)

lemma main_cycle_leader_down:
  assumes "get_current_leader (update_health probe (nodes s)) = None \<or>
           (\<exists>l. get_current_leader (update_health probe (nodes s)) = Some l \<and> \<not> healthy l)"
    and "get_best_candidate (update_health probe (nodes s)) = Some b"
  shows "main_cycle cfg probe run now s =
           Inr (perform_promotion cfg run now (update_health probe (nodes s)) (last_promotion_time s)
                  True LeaderUnhealthy (Some b))"
  using assms by (auto simp: main_cycle_def decide_promotion_def leader_down_decision_def Let_def)

lemma main_cycle_leader_healthy:
  assumes "get_current_leader (update_health probe (nodes s)) = Some l" and "healthy l"
    and "get_best_candidate (update_health probe (nodes s)) = Some b"
    and "failover_order l = Some lo" and "failover_order b = Some bo"
  shows "main_cycle cfg probe run now s =
           Inr (perform_promotion cfg run now (update_health probe (nodes s)) (last_promotion_time s)
                  (failback_enabled cfg \<and> bo < lo \<and> promotion_cooldown cfg \<le> now - last_promotion_time s)
                  (if failback_enabled cfg \<and> bo < lo \<and> promotion_cooldown cfg \<le> now - last_promotion_time s
                   then Failback else NoReason)
                  (Some b))"
  using assms
  by (simp add: main_cycle_def decide_promotion_def failback_decision_def order_less_def Let_def)

lemma perform_promotion_needed [simp]:
  "promotion_needed (perform_promotion cfg run now ns last_time needed why bc) = needed"
  by (simp add: perform_promotion_def Let_def split: option.splits prod.splits)

lemma perform_promotion_reason [simp]:
  "promotion_reason (perform_promotion cfg run now ns last_time needed why bc) = why"
  by (simp add: perform_promotion_def Let_def split: option.splits prod.splits)

lemma perform_promotion_not_needed:
  "perform_promotion cfg run now ns last_time False why bc =
     \<lparr>new_state = \<lparr>nodes = ns, last_promotion_time = last_time\<rparr>,
      promotion_needed = False, promotion_reason = why, executed = [], raised = None\<rparr>"
  by (simp add: perform_promotion_def Let_def split: option.splits)

lemma perform_promotion_first_command:
  "executed (perform_promotion cfg run now ns last_time True why (Some b)) \<noteq> [] \<and>
   hd (executed (perform_promotion cfg run now ns last_time True why (Some b)))
     = (promotion_cmd b, promote_node run b)"
  by (simp add: perform_promotion_def Let_def split: prod.splits)

lemma perform_promotion_success:
  "promote_node run b \<Longrightarrow>
   perform_promotion cfg run now ns last_time True why (Some b) =
     \<lparr>new_state = \<lparr>nodes = update_roles ns (name b), last_promotion_time = now\<rparr>,
      promotion_needed = True, promotion_reason = why,
      executed = (promotion_cmd b, True)
        # fst (dispatch_replication run (replication_command_valid cfg) b
               (update_roles ns (name b))),
      raised = snd (dispatch_replication run (replication_command_valid cfg) b
                      (update_roles ns (name b)))\<rparr>"
  by (simp add: perform_promotion_def Let_def split: prod.splits)

lemma perform_promotion_failure:
  "\<not> promote_node run b \<Longrightarrow>
   perform_promotion cfg run now ns last_time True why (Some b) =
     \<lparr>new_state = \<lparr>nodes = ns, last_promotion_time = last_time\<rparr>,
      promotion_needed = True, promotion_reason = why,
      executed = [(promotion_cmd b, False)], raised = None\<rparr>"
  by (simp add: perform_promotion_def Let_def)

lemma main_cycle_Inr:
  assumes "main_cycle cfg probe run now s = Inr r"
  shows "\<exists>needed why.
           decide_promotion cfg now (last_promotion_time s)
             (get_current_leader (update_health probe (nodes s)))
             (get_best_candidate (update_health probe (nodes s))) = Inr (needed, why) \<and>
           r = perform_promotion cfg run now (update_health probe (nodes s)) (last_promotion_time s)
                 needed why (get_best_candidate (update_health probe (nodes s)))"
  using assms by (auto simp: main_cycle_def Let_def split: sum.splits)

lemma main_cycle_shape:
  assumes "main_cycle cfg probe run now s = Inr r"
  shows "r = perform_promotion cfg run now (update_health probe (nodes s)) (last_promotion_time s)
               (promotion_needed r) (promotion_reason r)
               (get_best_candidate (update_health probe (nodes s)))"
  using main_cycle_Inr [OF assms] by auto

lemma reconfigure_replication_update_role:
  "reconfigure_replication run v b (n\<lparr>role := r\<rparr>) = reconfigure_replication run v b n"
  by (simp add: reconfigure_replication_def replication_cmd_def)

lemma dispatch_after_update_roles:
  "dispatch_replication run v b (update_roles ns nm) = dispatch_replication run v b ns"
  by (induction ns) (simp_all add: reconfigure_replication_update_role)

lemma dispatch_replication_decodable:
  assumes "v"
    and "\<forall>n\<in>set ns. name n \<noteq> name b \<and> healthy n \<longrightarrow> output_decodes run (replication_cmd b n)"
  shows "dispatch_replication run v b ns =
           (map (\<lambda>n. (replication_cmd b n, exit_ok run (replication_cmd b n)))
              (filter (\<lambda>n. name n \<noteq> name b \<and> healthy n) ns), None)"
  using assms(2) by (induction ns) (simp_all add: reconfigure_replication_def Let_def assms(1))

lemma dispatch_replication_aborts:
  assumes "v"
    and "\<forall>n\<in>set pre. name n \<noteq> name b \<and> healthy n \<longrightarrow> output_decodes run (replication_cmd b n)"
    and "name n \<noteq> name b" and "healthy n" and "\<not> output_decodes run (replication_cmd b n)"
  shows "dispatch_replication run v b (pre @ n # post) =
           (map (\<lambda>n. (replication_cmd b n, exit_ok run (replication_cmd b n)))
              (filter (\<lambda>n. name n \<noteq> name b \<and> healthy n) pre)
            @ [(replication_cmd b n, exit_ok run (replication_cmd b n))],
            Some UnicodeDecodeError)"
  using assms(2) by (induction pre) (simp_all add: reconfigure_replication_def Let_def assms(1,3,4,5))

lemma dispatch_replication_bad_template:
  "dispatch_replication run False b ns =
     (if filter (\<lambda>n. name n \<noteq> name b \<and> healthy n) ns = [] then ([], None)
      else ([], Some TemplateError))"
  by (induction ns) (simp_all add: reconfigure_replication_def)

lemma map_role_update_health: "map role (update_health probe ns) = map role ns"
  by (induction ns) simp_all

lemma update_health_twice:
  "(\<forall>n h. probe' (n\<lparr>healthy := h\<rparr>) = probe' n) \<Longrightarrow>
   update_health probe' (update_health probe ns) = update_health probe' ns"
  by (induction ns) simp_all

lemma main_cycle_state_cong:
  "update_health probe (nodes s) = update_health probe (nodes s') \<Longrightarrow>
   last_promotion_time s = last_promotion_time s' \<Longrightarrow>
   main_cycle cfg probe run now s = main_cycle cfg probe run now s'"
  by (auto simp: main_cycle_def Let_def split: sum.splits)





text \<open>
  The failback comparison has no default for a missing \<^verbatim>\<open>failover_order\<close>: with
  failback enabled and a healthy leader, a leader or a best candidate without the field
  makes the cycle raise \<^verbatim>\<open>TypeError\<close>.
\<close>

lemma failback_comparison_raises:
  assumes "ns = update_health probe (nodes s)"
    and "get_current_leader ns = Some l" and "healthy l"
    and "get_best_candidate ns = Some b" and "failback_enabled cfg"
    and "failover_order l = None \<or> failover_order b = None"
  shows "main_cycle cfg probe run now s = Inl TypeError"
  using assms
  by (auto simp: main_cycle_def decide_promotion_def failback_decision_def order_less_def Let_def
           split: option.splits)

subsection \<open>The example clusters, evaluated\<close>

lemmas example_nodes = node1_def node2_def node3_def node4_def node5_def

lemmas example_defs = node0_def node1_def node2_def node3_def node4_def node5_def cfg0_def
  all_up_def all_but_node1_def is_promotion_def always_def never_def
  run_ok_def run_fail_def run_promotion_only_def run_garbled_def
  leader_down_cluster_def failback_cluster_def failed_outcome_def promoted_state_def
  promoted_outcome_def four_node_cluster_def aborted_outcome_def

lemmas cycle_defs = main_cycle_def Let_def decide_promotion_def leader_down_decision_def
  failback_decision_def order_less_def perform_promotion_def promote_node_def promotion_cmd_def
  reconfigure_replication_def replication_cmd_def get_current_leader_def get_best_candidate_def
  order_key_def

lemma leader_down_cluster_probed:
  "update_health all_but_node1 (nodes leader_down_cluster) = [node1, node2, node3]"
  by (simp add: example_defs)

lemma leader_down_cluster_leader: "get_current_leader [node1, node2, node3] = Some node1"
  by (simp add: example_defs cycle_defs)

lemma leader_down_cluster_candidate: "get_best_candidate [node1, node2, node3] = Some node2"
  by (simp add: example_defs cycle_defs)

lemma leader_down_cycle_failed:
  "main_cycle cfg0 all_but_node1 run_fail 100 leader_down_cluster = Inr failed_outcome"
  by (simp add: example_defs cycle_defs)

lemma leader_down_cycle_promoted:
  "main_cycle cfg0 all_but_node1 run_ok 100 leader_down_cluster = Inr (promoted_outcome True)"
  by (simp add: example_defs cycle_defs)

lemma leader_down_cycle_reconfigure_failed:
  "main_cycle cfg0 all_but_node1 run_promotion_only 100 leader_down_cluster
     = Inr (promoted_outcome False)"
  by (simp add: example_defs cycle_defs)

lemma failback_cluster_probed:
  "update_health all_up (nodes failback_cluster)
     = [node1\<lparr>healthy := True\<rparr>, node0\<lparr>healthy := True\<rparr>]"
  by (simp add: example_defs)

lemma failback_cluster_leader:
  "get_current_leader [node1\<lparr>healthy := True\<rparr>, node0\<lparr>healthy := True\<rparr>]
     = Some (node1\<lparr>healthy := True\<rparr>)"
  by (simp add: example_defs cycle_defs)

lemma failback_cluster_candidate:
  "get_best_candidate [node1\<lparr>healthy := True\<rparr>, node0\<lparr>healthy := True\<rparr>]
     = Some (node0\<lparr>healthy := True\<rparr>)"
  by (simp add: example_defs cycle_defs)

section \<open>Two cycles in succession\<close>

lemmas waiting_defs = waiting_cluster_def blocked_outcome_def

lemma update_health_same:
  "map probe ns = map healthy ns \<Longrightarrow> update_health probe ns = ns"
  by (induction ns) simp_all

lemma map_healthy_update_health: "map healthy (update_health probe ns) = map probe ns"
  by (induction ns) simp_all

lemma map_healthy_update_roles: "map healthy (update_roles ns nm) = map healthy ns"
  by (induction ns) simp_all

lemma first_lowest_map:
  assumes "\<And>x. P (g x) = P x" and "\<And>x. f (g x) = f x" and "first_lowest P f xs m"
  shows "first_lowest P f (map g xs) (g m)"
proof -
  from assms(3) obtain pre post where
    s: "xs = pre @ m # post" "P m"
       "\<forall>y\<in>set pre. P y \<longrightarrow> f m < f y" "\<forall>y\<in>set post. P y \<longrightarrow> f m \<le> f y"
    unfolding first_lowest_def by blast
  show ?thesis
    unfolding first_lowest_def
    using s assms(1,2) by (intro exI [of _ "map g pre"] exI [of _ "map g post"]) auto
qed

lemma best_candidate_update_roles:
  assumes "get_best_candidate ns = Some b"
  shows "get_best_candidate (update_roles ns (name b)) = Some (b\<lparr>role := ''leader''\<rparr>)"
proof -
  let ?g = "\<lambda>n. if name n = name b then n\<lparr>role := ''leader''\<rparr> else n\<lparr>role := ''replica''\<rparr>"
  have "first_lowest healthy order_key (map ?g ns) (?g b)"
    using assms by (intro first_lowest_map) (simp_all add: get_best_candidate_iff order_key_def)
  then show ?thesis
    by (simp add: get_best_candidate_iff update_roles_map)
qed

lemma promotion_succeeded_cases:
  assumes "promotion_succeeded (perform_promotion cfg run now ns last_time needed why bc)"
  shows "needed \<and> (\<exists>b. bc = Some b \<and> promote_node run b)"
  using assms
  by (auto simp: promotion_succeeded_def perform_promotion_def Let_def
           split: option.splits if_splits prod.splits)

lemma failback_decision_equal_keys:
  assumes "order_key b = order_key l"
  shows "failback_decision cfg now last_time l (Some b) = Inl TypeError \<or>
         failback_decision cfg now last_time l (Some b) = Inr (False, NoReason)"
  using assms
  by (auto simp: failback_decision_def order_less_def order_key_def split: option.splits)

lemma no_request_after_promotion:
  assumes best: "get_best_candidate ns = Some b"
    and leader: "get_current_leader (update_roles ns (name b)) = Some l" and "healthy l"
  shows "decide_promotion cfg now last_time
           (get_current_leader (update_roles ns (name b)))
           (get_best_candidate (update_roles ns (name b))) = Inl TypeError \<or>
         decide_promotion cfg now last_time
           (get_current_leader (update_roles ns (name b)))
           (get_best_candidate (update_roles ns (name b))) = Inr (False, NoReason)"
proof -
  let ?ns' = "update_roles ns (name b)"
  let ?b' = "b\<lparr>role := ''leader''\<rparr>"
  have b': "get_best_candidate ?ns' = Some ?b'" by (rule best_candidate_update_roles [OF best])
  have "order_key ?b' \<le> order_key l"
    using best_candidate_lowest [OF b' current_leader_member [OF leader] \<open>healthy l\<close>] .
  moreover have "order_key l \<le> order_key ?b'"
    using current_leader_lowest [OF leader best_candidate_member [OF b']] by simp
  ultimately have "order_key ?b' = order_key l" by simp
  from failback_decision_equal_keys [OF this, of cfg now last_time]
  show ?thesis using leader \<open>healthy l\<close> b' by (simp add: decide_promotion_def)
qed

lemma promotion_requested_decide:
  "promotion_requested (main_cycle cfg probe run now s) \<longleftrightarrow>
   (\<exists>why. decide_promotion cfg now (last_promotion_time s)
            (get_current_leader (update_health probe (nodes s)))
            (get_best_candidate (update_health probe (nodes s))) = Inr (True, why))"
  by (auto simp: promotion_requested_def main_cycle_def Let_def split: sum.splits)

lemma failback_requested_decide:
  "failback_requested (main_cycle cfg probe run now s) \<longleftrightarrow>
   decide_promotion cfg now (last_promotion_time s)
     (get_current_leader (update_health probe (nodes s)))
     (get_best_candidate (update_health probe (nodes s))) = Inr (True, Failback)"
  by (auto simp: failback_requested_def main_cycle_def Let_def split: sum.splits)

lemma decide_healthy_leader_later:
  assumes "healthy l"
    and "decide_promotion cfg now1 last_time (Some l) bc = Inr (False, why1)"
    and "decide_promotion cfg now2 last_time (Some l) bc = Inr (True, why2)"
  shows "why2 = Failback \<and> now1 - last_time < promotion_cooldown cfg \<and>
         promotion_cooldown cfg \<le> now2 - last_time"
  using assms
  by (auto simp: decide_promotion_def failback_decision_def
           split: option.splits if_splits sum.splits)

lemma promoted_state_leader:
  "get_current_leader (nodes promoted_state) = Some (node2\<lparr>role := ''leader''\<rparr>)"
  by (simp add: example_defs cycle_defs)

lemma main_cycle_failback_disabled:
  assumes "get_current_leader (update_health probe (nodes s)) = Some l" and "healthy l"
    and "\<not> failback_enabled cfg"
  shows "main_cycle cfg probe run now s =
           Inr (perform_promotion cfg run now (update_health probe (nodes s)) (last_promotion_time s)
                  False NoReason (get_best_candidate (update_health probe (nodes s))))"
  using assms by (simp add: main_cycle_def decide_promotion_def failback_decision_def Let_def)

section \<open>Candidate Selector\<close>

text \<open>
  C3. \<^verbatim>\<open>get_best_candidate\<close> returns nothing exactly when no node is healthy.
  Otherwise it returns a healthy node whose failover order (9999 when the field is
  absent) is strictly below that of every healthy node earlier in the list and at most
  that of every healthy node later in the list: the first healthy node of lowest order.
  In particular an explicit order of the node returned is at most every explicit order of
  a healthy node, and an unhealthy node is never returned.
\<close>

theorem get_best_candidate_correct:
  "(get_best_candidate ns = None \<longleftrightarrow> (\<forall>n\<in>set ns. \<not> healthy n)) \<and>
   (\<forall>b. get_best_candidate ns = Some b \<longleftrightarrow>
      (\<exists>pre post. ns = pre @ b # post \<and> healthy b \<and>
         (\<forall>n\<in>set pre. healthy n \<longrightarrow>
            (case failover_order b of None \<Rightarrow> 9999 | Some k \<Rightarrow> k)
              < (case failover_order n of None \<Rightarrow> 9999 | Some k \<Rightarrow> k)) \<and>
         (\<forall>n\<in>set post. healthy n \<longrightarrow>
            (case failover_order b of None \<Rightarrow> 9999 | Some k \<Rightarrow> k)
              \<le> (case failover_order n of None \<Rightarrow> 9999 | Some k \<Rightarrow> k)))) \<and>
   (\<forall>b kb. get_best_candidate ns = Some b \<and> failover_order b = Some kb \<longrightarrow>
      (\<forall>n\<in>set ns. \<forall>k. healthy n \<and> failover_order n = Some k \<longrightarrow> kb \<le> k))"
proof (intro conjI allI impI ballI)
  show "get_best_candidate ns = None \<longleftrightarrow> (\<forall>n\<in>set ns. \<not> healthy n)"
    by (rule get_best_candidate_None_iff)
next
  fix b
  show "get_best_candidate ns = Some b \<longleftrightarrow>
      (\<exists>pre post. ns = pre @ b # post \<and> healthy b \<and>
         (\<forall>n\<in>set pre. healthy n \<longrightarrow>
            (case failover_order b of None \<Rightarrow> 9999 | Some k \<Rightarrow> k)
              < (case failover_order n of None \<Rightarrow> 9999 | Some k \<Rightarrow> k)) \<and>
         (\<forall>n\<in>set post. healthy n \<longrightarrow>
            (case failover_order b of None \<Rightarrow> 9999 | Some k \<Rightarrow> k)
              \<le> (case failover_order n of None \<Rightarrow> 9999 | Some k \<Rightarrow> k)))"
    using get_best_candidate_iff [of ns b] unfolding first_lowest_def order_key_def by simp
next
  fix b kb n k
  assume b: "get_best_candidate ns = Some b \<and> failover_order b = Some kb"
    and n: "n \<in> set ns" "healthy n \<and> failover_order n = Some k"
  from best_candidate_lowest [of ns b n] b n show "kb \<le> k"
    by (simp add: order_key_def)
qed

theorem get_best_candidate_correct_witness:
  "get_best_candidate [node1, node3, node2] = Some node2 \<and>
   get_best_candidate [node1, node3, node2] \<noteq> None \<and>
   failover_order node1 = Some 1 \<and> \<not> healthy node1 \<and>
   failover_order node3 = Some 3 \<and> healthy node3 \<and>
   failover_order node2 = Some 2 \<and> healthy node2 \<and> (2::int) \<le> 3"
proof -
  have e: "get_best_candidate [node1, node3, node2] = Some node2"
    by (simp add: get_best_candidate_def example_nodes order_key_def)
  have o: "failover_order node2 = Some 2" "failover_order node3 = Some 3"
    "failover_order node1 = Some 1" "\<not> healthy node1" "healthy node3"
    by (simp_all add: example_nodes)
  note c = get_best_candidate_correct [of "[node1, node3, node2]"]
  from c e have "healthy node2" by blast
  moreover from c e o have "(2::int) \<le> 3" by simp
  ultimately show ?thesis using e o by simp
qed

section \<open>Leader Locator\<close>


section \<open>Nodes without a failover order\<close>

lemma order_key_above_default:
  "9999 < order_key n \<longleftrightarrow> (\<exists>k. failover_order n = Some k \<and> 9999 < k)"
  by (cases "failover_order n") (simp_all add: order_key_def)

lemma order_key_from_default:
  "9999 \<le> order_key n \<longleftrightarrow> (\<forall>k. failover_order n = Some k \<longrightarrow> 9999 \<le> k)"
  by (cases "failover_order n") (simp_all add: order_key_def)

lemma order_key_absent: "failover_order n = None \<Longrightarrow> order_key n = 9999"
  by (simp add: order_key_def)

text \<open>
  A node without the field is not only preferred to explicit orders above 9999: placed
  before a node whose explicit order is exactly 9999, it wins the tie.
\<close>

theorem absent_order_counterexample:
  "failover_order node4 = None \<and> failover_order node5 = Some 9999 \<and> \<not> (9999 :: int) < 9999 \<and>
   get_best_candidate [node4, node5] = Some node4 \<and>
   get_current_leader [node4, node5] = Some node4"
  by (simp add: get_best_candidate_def get_current_leader_def example_nodes order_key_def)

text \<open>
  C10 (amended). A node \<open>b\<close> without \<^verbatim>\<open>failover_order\<close> is ranked with the key 9999
  by both selectors. The Candidate Selector returns it exactly when it is healthy, every
  healthy node before it in the list has an explicit order above 9999, and every healthy
  node after it has no order or an explicit order of at least 9999; the Leader Locator
  does the same among the nodes marked leader. So it wins over an explicit order only if
  that order is at least 9999 (above 9999 when the explicit node comes first), and among
  nodes that all lack the field the earliest in list order is selected.
\<close>

theorem absent_order_selection:
  assumes "failover_order b = None"
  shows "(get_best_candidate ns = Some b \<longleftrightarrow>
      (\<exists>pre post. ns = pre @ b # post \<and> healthy b \<and>
         (\<forall>n\<in>set pre. healthy n \<longrightarrow> (\<exists>k. failover_order n = Some k \<and> 9999 < k)) \<and>
         (\<forall>n\<in>set post. healthy n \<longrightarrow> (\<forall>k. failover_order n = Some k \<longrightarrow> 9999 \<le> k)))) \<and>
    (get_current_leader ns = Some b \<longleftrightarrow>
      (\<exists>pre post. ns = pre @ b # post \<and> role b = ''leader'' \<and>
         (\<forall>n\<in>set pre. role n = ''leader'' \<longrightarrow> (\<exists>k. failover_order n = Some k \<and> 9999 < k)) \<and>
         (\<forall>n\<in>set post. role n = ''leader'' \<longrightarrow> (\<forall>k. failover_order n = Some k \<longrightarrow> 9999 \<le> k))))"
  unfolding get_best_candidate_iff get_current_leader_iff first_lowest_def
    order_key_absent [OF assms] order_key_above_default order_key_from_default
  by simp

theorem absent_order_selection_witness:
  "failover_order node4 = None \<and> get_best_candidate [node1, node4, node5] = Some node4 \<and>
   get_current_leader [node4, node5] = Some node4 \<and> healthy node4 \<and> role node4 = ''leader''"
proof -
  have a: "failover_order node4 = None" by (simp add: node4_def)
  have e: "get_best_candidate [node1, node4, node5] = Some node4"
    by (simp add: get_best_candidate_def example_nodes order_key_def)
  have e': "get_current_leader [node4, node5] = Some node4"
    by (simp add: get_current_leader_def example_nodes order_key_def)
  from absent_order_selection [OF a, of "[node1, node4, node5]"] e
  have h: "healthy node4" by blast
  from absent_order_selection [OF a, of "[node4, node5]"] e'
  have r: "role node4 = ''leader''" by blast
  from a e e' h r show ?thesis by simp
qed
section \<open>Role Updater\<close>

text \<open>
  C5. When the node names are unique, \<^verbatim>\<open>update_roles\<close> leaves at most one node with
  the role leader (exactly one if the new leader's name is a node's name, none otherwise):
  a node is leader after the update exactly when its name is the new leader's name, and
  every other node is a replica. Names are untouched.
\<close>

theorem update_roles_single_leader:
  assumes "distinct (map name ns)"
  shows "length (filter is_leader (update_roles ns nm)) \<le> 1 \<and>
         length (filter is_leader (update_roles ns nm)) = (if nm \<in> name ` set ns then 1 else 0) \<and>
         (\<forall>n\<in>set (update_roles ns nm).
            (role n = ''leader'' \<longleftrightarrow> name n = nm) \<and> (name n \<noteq> nm \<longrightarrow> role n = ''replica'')) \<and>
         map name (update_roles ns nm) = map name ns"
proof (intro conjI ballI impI)
  show "length (filter is_leader (update_roles ns nm)) \<le> 1"
    by (simp add: length_filter_leader_update_roles [OF assms])
  show "length (filter is_leader (update_roles ns nm)) = (if nm \<in> name ` set ns then 1 else 0)"
    by (rule length_filter_leader_update_roles [OF assms])
  show "map name (update_roles ns nm) = map name ns"
    by (rule map_name_update_roles)
next
  fix n assume "n \<in> set (update_roles ns nm)"
  then show "role n = ''leader'' \<longleftrightarrow> name n = nm"
    by (rule is_leader_update_roles)
next
  fix n assume "n \<in> set (update_roles ns nm)" "name n \<noteq> nm"
  then show "role n = ''replica''"
    by (rule is_replica_update_roles)
qed

theorem update_roles_single_leader_witness:
  "distinct (map name [node1, node2, node3]) \<and>
   length (filter is_leader (update_roles [node1, node2, node3] ''node2'')) = 1 \<and>
   map role (update_roles [node1, node2, node3] ''node2'') = [''replica'', ''leader'', ''replica'']"
proof -
  have d: "distinct (map name [node1, node2, node3])" by (simp add: example_nodes)
  from update_roles_single_leader [OF d, of "''node2''"]
  have "length (filter is_leader (update_roles [node1, node2, node3] ''node2'')) = 1"
    by (simp add: example_nodes)
  with d show ?thesis by (simp add: example_nodes)
qed
section \<open>Promotion Policy\<close>

text \<open>
  C1. In a cycle whose current leader exists and is healthy, a promotion is requested
  exactly when failback is enabled, the best candidate's failover order is strictly below
  the leader's, and the time since the last promotion is at least the cooldown. Nothing
  is requested while the cooldown is running, nor when no healthy node has an order
  strictly below the leader's. A requested promotion is a failback of the best candidate;
  a cycle that requests nothing runs no command and changes only the health flags. The
  cycle returns normally unless failback is enabled and the leader or the best candidate
  has no \<^verbatim>\<open>failover_order\<close>, where the comparison raises and nothing is requested.
\<close>

theorem failback_policy:
  assumes "ns = update_health probe (nodes s)"
    and "get_current_leader ns = Some l" and "healthy l"
    and "get_best_candidate ns = Some b"
  shows "(promotion_requested (main_cycle cfg probe run now s) \<longleftrightarrow>
            failback_enabled cfg \<and>
            (\<exists>bo lo. failover_order b = Some bo \<and> failover_order l = Some lo \<and> bo < lo) \<and>
            promotion_cooldown cfg \<le> now - last_promotion_time s) \<and>
         (now - last_promotion_time s < promotion_cooldown cfg \<longrightarrow>
            \<not> promotion_requested (main_cycle cfg probe run now s)) \<and>
         ((\<forall>n\<in>set ns. healthy n \<longrightarrow>
             (\<forall>k lo. failover_order n = Some k \<and> failover_order l = Some lo \<longrightarrow> \<not> k < lo)) \<longrightarrow>
            \<not> promotion_requested (main_cycle cfg probe run now s)) \<and>
         (\<forall>r. main_cycle cfg probe run now s = Inr r \<longrightarrow>
            (promotion_needed r \<longrightarrow>
               promotion_reason r = Failback \<and> executed r \<noteq> [] \<and>
               hd (executed r) = (promotion_cmd b, promote_node run b)) \<and>
            (\<not> promotion_needed r \<longrightarrow>
               executed r = [] \<and>
               new_state r = \<lparr>nodes = ns, last_promotion_time = last_promotion_time s\<rparr>)) \<and>
         (main_cycle cfg probe run now s = Inl TypeError \<longleftrightarrow>
            failback_enabled cfg \<and> (failover_order l = None \<or> failover_order b = None))"
    (is "?requested \<and> ?blocked \<and> ?stable \<and> ?outcome \<and> ?raises")
proof -
  let ?last = "last_promotion_time s"
  let ?elapsed = "promotion_cooldown cfg \<le> now - ?last"
  have member: "b \<in> set ns" "healthy b"
    using best_candidate_member [OF assms(4)] best_candidate_healthy [OF assms(4)] .
  consider (disabled) "\<not> failback_enabled cfg"
    | (absent) "failback_enabled cfg" "failover_order l = None \<or> failover_order b = None"
    | (present) bo lo where "failback_enabled cfg" "failover_order b = Some bo" "failover_order l = Some lo"
    by (cases "failover_order b"; cases "failover_order l") auto
  then show ?thesis
  proof cases
    case disabled
    have c: "main_cycle cfg probe run now s =
        Inr \<lparr>new_state = \<lparr>nodes = ns, last_promotion_time = ?last\<rparr>,
             promotion_needed = False, promotion_reason = NoReason, executed = [],
             raised = None\<rparr>"
      using main_cycle_failback_disabled [of probe s l cfg run now] assms disabled
      by (simp add: perform_promotion_not_needed)
    show ?thesis
      using disabled by (auto simp: c promotion_requested_def)
  next
    case absent
    have c: "main_cycle cfg probe run now s = Inl TypeError"
      using failback_comparison_raises [OF assms(1-4) absent] .
    show ?thesis
      using absent by (auto simp: c promotion_requested_def)
  next
    case present
    let ?needed = "bo < lo \<and> ?elapsed"
    let ?r = "perform_promotion cfg run now ns ?last ?needed
                (if ?needed then Failback else NoReason) (Some b)"
    have c: "main_cycle cfg probe run now s = Inr ?r"
      using main_cycle_leader_healthy [of probe s l b lo bo cfg run now] assms present by simp
    have requested: ?requested
      using present by (simp add: c promotion_requested_def)
    have blocked: ?blocked
      by (simp add: c promotion_requested_def)
    have stable: ?stable
      using member present by (auto simp: c promotion_requested_def)
    have first: "promotion_needed ?r \<longrightarrow>
         promotion_reason ?r = Failback \<and> executed ?r \<noteq> [] \<and>
         hd (executed ?r) = (promotion_cmd b, promote_node run b)"
      using perform_promotion_first_command [of cfg run now ns ?last Failback b] by auto
    have idle: "\<not> promotion_needed ?r \<longrightarrow>
         executed ?r = [] \<and> new_state ?r = \<lparr>nodes = ns, last_promotion_time = ?last\<rparr>"
      using perform_promotion_not_needed [of cfg run now ns ?last NoReason "Some b"] by auto
    have outcome: ?outcome
      using first idle by (simp add: c)
    have raises: ?raises
      using present by (simp add: c)
    from requested blocked stable outcome raises show ?thesis by blast
  qed
qed

theorem failback_policy_witness:
  "get_current_leader (update_health all_up (nodes failback_cluster)) = Some (node1\<lparr>healthy := True\<rparr>) \<and>
   healthy (node1\<lparr>healthy := True\<rparr>) \<and>
   get_best_candidate (update_health all_up (nodes failback_cluster)) = Some (node0\<lparr>healthy := True\<rparr>) \<and>
   failover_order (node1\<lparr>healthy := True\<rparr>) = Some 1 \<and>
   failover_order (node0\<lparr>healthy := True\<rparr>) = Some 0 \<and>
   promotion_cooldown cfg0 \<le> 100 - last_promotion_time failback_cluster \<and>
   promotion_requested (main_cycle cfg0 all_up run_ok 100 failback_cluster) \<and>
   main_cycle cfg0 all_up run_ok 100 failback_cluster \<noteq> Inl TypeError"
proof -
  have l: "get_current_leader (update_health all_up (nodes failback_cluster)) = Some (node1\<lparr>healthy := True\<rparr>)"
    by (simp only: failback_cluster_probed failback_cluster_leader)
  have h: "healthy (node1\<lparr>healthy := True\<rparr>)" by simp
  have b: "get_best_candidate (update_health all_up (nodes failback_cluster)) = Some (node0\<lparr>healthy := True\<rparr>)"
    by (simp only: failback_cluster_probed failback_cluster_candidate)
  have lo: "failover_order (node1\<lparr>healthy := True\<rparr>) = Some 1" by (simp add: node1_def)
  have bo: "failover_order (node0\<lparr>healthy := True\<rparr>) = Some 0" by (simp add: node0_def)
  have c: "promotion_cooldown cfg0 \<le> 100 - last_promotion_time failback_cluster"
    by (simp add: cfg0_def failback_cluster_def)
  have f: "failback_enabled cfg0" by (simp add: cfg0_def)
  note p = failback_policy [OF refl l h b, of cfg0 run_ok 100]
  from p f c lo bo have "promotion_requested (main_cycle cfg0 all_up run_ok 100 failback_cluster)"
    by simp
  moreover from p lo bo have "main_cycle cfg0 all_up run_ok 100 failback_cluster \<noteq> Inl TypeError"
    by simp
  ultimately show ?thesis using l h b lo bo c by blast
qed

text \<open>
  C2. In a cycle with no current leader, or with an unhealthy one, and with a healthy
  candidate, the promotion of that candidate is requested and its promotion command is the
  first command run, whatever the cooldown, the time of the last promotion, the clock and
  the failback setting.
\<close>

theorem emergency_promotion:
  assumes "ns = update_health probe (nodes s)"
    and "get_current_leader ns = None \<or> (\<exists>l. get_current_leader ns = Some l \<and> \<not> healthy l)"
    and "get_best_candidate ns = Some b"
  shows "\<exists>r. main_cycle cfg probe run now s = Inr r \<and>
           promotion_needed r \<and> promotion_reason r = LeaderUnhealthy \<and>
           executed r \<noteq> [] \<and> hd (executed r) = (promotion_cmd b, promote_node run b)"
proof -
  let ?r = "perform_promotion cfg run now ns (last_promotion_time s) True LeaderUnhealthy (Some b)"
  have "main_cycle cfg probe run now s = Inr ?r"
    using main_cycle_leader_down [of probe s b cfg run now] assms by simp
  moreover have "promotion_needed ?r" "promotion_reason ?r = LeaderUnhealthy" by simp_all
  moreover have "executed ?r \<noteq> [] \<and> hd (executed ?r) = (promotion_cmd b, promote_node run b)"
    by (rule perform_promotion_first_command)
  ultimately show ?thesis by blast
qed

theorem emergency_promotion_witness:
  "get_current_leader (update_health all_but_node1 (nodes leader_down_cluster)) = Some node1 \<and>
   \<not> healthy node1 \<and>
   get_best_candidate (update_health all_but_node1 (nodes leader_down_cluster)) = Some node2 \<and>
   100 - last_promotion_time leader_down_cluster < promotion_cooldown cfg0 \<and>
   promotion_requested (main_cycle cfg0 all_but_node1 run_ok 100 leader_down_cluster)"
proof -
  have l: "get_current_leader (update_health all_but_node1 (nodes leader_down_cluster)) = Some node1"
    by (simp only: leader_down_cluster_probed leader_down_cluster_leader)
  have h: "\<not> healthy node1" by (simp add: node1_def)
  have b: "get_best_candidate (update_health all_but_node1 (nodes leader_down_cluster)) = Some node2"
    by (simp only: leader_down_cluster_probed leader_down_cluster_candidate)
  have c: "100 - last_promotion_time leader_down_cluster < promotion_cooldown cfg0"
    by (simp add: leader_down_cluster_def cfg0_def)
  from l h have "get_current_leader (update_health all_but_node1 (nodes leader_down_cluster)) = None \<or>
      (\<exists>l. get_current_leader (update_health all_but_node1 (nodes leader_down_cluster)) = Some l \<and> \<not> healthy l)"
    by blast
  from emergency_promotion [OF refl this b, of cfg0 run_ok 100]
  have "promotion_requested (main_cycle cfg0 all_but_node1 run_ok 100 leader_down_cluster)"
    by (auto simp: promotion_requested_def)
  with l h b c show ?thesis by blast
qed

section \<open>Promotion Executor, Role Updater and Replication Dispatcher\<close>

text \<open>
  C6. When the promotion command of a cycle fails, no role changes, the time of the last
  promotion is unchanged, the failed promotion command is the only command run (no
  reconfiguration is dispatched), and the state left is the state before the cycle with
  the health flags refreshed: a following cycle, whose health check does not read the
  previous flag, decides exactly as it would have from the state before.
\<close>

theorem failed_promotion_atomic:
  assumes "ns = update_health probe (nodes s)"
    and "main_cycle cfg probe run now s = Inr r" and "promotion_needed r"
    and "get_best_candidate ns = Some b" and "\<not> promote_node run b"
  shows "map role (nodes (new_state r)) = map role (nodes s) \<and>
         last_promotion_time (new_state r) = last_promotion_time s \<and>
         executed r = [(promotion_cmd b, False)] \<and>
         new_state r = \<lparr>nodes = ns, last_promotion_time = last_promotion_time s\<rparr> \<and>
         (\<forall>probe' run' now'. (\<forall>n h. probe' (n\<lparr>healthy := h\<rparr>) = probe' n) \<longrightarrow>
            main_cycle cfg probe' run' now' (new_state r) = main_cycle cfg probe' run' now' s)"
proof -
  have "r = perform_promotion cfg run now ns (last_promotion_time s) True (promotion_reason r) (Some b)"
    using main_cycle_shape [OF assms(2)] assms(1,3,4) by simp
  then have r: "r = \<lparr>new_state = \<lparr>nodes = ns, last_promotion_time = last_promotion_time s\<rparr>,
      promotion_needed = True, promotion_reason = promotion_reason r,
      executed = [(promotion_cmd b, False)], raised = None\<rparr>"
    using perform_promotion_failure [OF assms(5)] by simp
  have st: "new_state r = \<lparr>nodes = ns, last_promotion_time = last_promotion_time s\<rparr>"
    by (subst r) simp
  have ex: "executed r = [(promotion_cmd b, False)]"
    by (subst r) simp
  have roles: "map role (nodes (new_state r)) = map role (nodes s)"
    using st assms(1) by (simp add: map_role_update_health)
  have next_cycle: "main_cycle cfg probe' run' now' (new_state r) = main_cycle cfg probe' run' now' s"
    if "\<forall>n h. probe' (n\<lparr>healthy := h\<rparr>) = probe' n" for probe' run' now'
    using st assms(1) update_health_twice [OF that, of probe "nodes s"]
    by (intro main_cycle_state_cong) simp_all
  from st ex roles next_cycle show ?thesis by simp
qed

theorem failed_promotion_atomic_witness:
  "main_cycle cfg0 all_but_node1 run_fail 100 leader_down_cluster = Inr failed_outcome \<and>
   promotion_needed failed_outcome \<and>
   get_best_candidate (update_health all_but_node1 (nodes leader_down_cluster)) = Some node2 \<and>
   \<not> promote_node run_fail node2 \<and>
   map role (nodes (new_state failed_outcome)) = map role (nodes leader_down_cluster) \<and>
   last_promotion_time (new_state failed_outcome) = last_promotion_time leader_down_cluster \<and>
   executed failed_outcome = [(promotion_cmd node2, False)] \<and>
   main_cycle cfg0 all_up run_ok 105 (new_state failed_outcome)
     = main_cycle cfg0 all_up run_ok 105 leader_down_cluster"
proof -
  have n: "promotion_needed failed_outcome" by (simp add: failed_outcome_def)
  have b: "get_best_candidate (update_health all_but_node1 (nodes leader_down_cluster)) = Some node2"
    by (simp only: leader_down_cluster_probed leader_down_cluster_candidate)
  have f: "\<not> promote_node run_fail node2" by (simp add: promote_node_def run_fail_def never_def)
  have i: "\<forall>n h. all_up (n\<lparr>healthy := h\<rparr>) = all_up n" by (simp add: all_up_def)
  from failed_promotion_atomic [OF refl leader_down_cycle_failed n b f] i
  have "map role (nodes (new_state failed_outcome)) = map role (nodes leader_down_cluster) \<and>
   last_promotion_time (new_state failed_outcome) = last_promotion_time leader_down_cluster \<and>
   executed failed_outcome = [(promotion_cmd node2, False)] \<and>
   main_cycle cfg0 all_up run_ok 105 (new_state failed_outcome)
     = main_cycle cfg0 all_up run_ok 105 leader_down_cluster"
    by blast
  with leader_down_cycle_failed n b f show ?thesis by blast
qed



text \<open>
  What the dispatch does when the template is accepted and the output of every
  reconfiguration command decodes: after a successful promotion the commands run are the
  promotion command followed by one reconfiguration command for each node, in list order,
  that is healthy and whose name is not the new leader's; the roles are updated, the
  clock is reset and nothing is raised, whatever the exit status of the reconfiguration
  commands.
\<close>

lemma replication_dispatch_decodable:
  assumes "ns = update_health probe (nodes s)"
    and "main_cycle cfg probe run now s = Inr r" and "promotion_needed r"
    and "get_best_candidate ns = Some b" and "promote_node run b"
    and "replication_command_valid cfg"
    and "\<forall>n\<in>set ns. name n \<noteq> name b \<and> healthy n \<longrightarrow> output_decodes run (replication_cmd b n)"
  shows "executed r = (promotion_cmd b, True)
           # map (\<lambda>n. (replication_cmd b n, exit_ok run (replication_cmd b n)))
               (filter (\<lambda>n. name n \<noteq> name b \<and> healthy n) ns) \<and>
         raised r = None \<and>
         new_state r = \<lparr>nodes = update_roles ns (name b), last_promotion_time = now\<rparr>"
proof -
  have "r = perform_promotion cfg run now ns (last_promotion_time s) True (promotion_reason r) (Some b)"
    using main_cycle_shape [OF assms(2)] assms(1,3,4) by simp
  then have r: "r = \<lparr>new_state = \<lparr>nodes = update_roles ns (name b), last_promotion_time = now\<rparr>,
      promotion_needed = True, promotion_reason = promotion_reason r,
      executed = (promotion_cmd b, True)
        # fst (dispatch_replication run (replication_command_valid cfg) b ns),
      raised = snd (dispatch_replication run (replication_command_valid cfg) b ns)\<rparr>"
    using perform_promotion_success [OF assms(5)] by (simp add: dispatch_after_update_roles)
  have d: "dispatch_replication run (replication_command_valid cfg) b ns =
           (map (\<lambda>n. (replication_cmd b n, exit_ok run (replication_cmd b n)))
              (filter (\<lambda>n. name n \<noteq> name b \<and> healthy n) ns), None)"
    using assms(6,7) by (intro dispatch_replication_decodable) simp_all
  show ?thesis
    by (subst (1 2 3) r) (simp add: d)
qed

lemma four_node_cycle_aborted:
  "main_cycle cfg0 all_but_node1 run_garbled 100 four_node_cluster = Inr aborted_outcome"
  by (simp add: example_defs cycle_defs)

text \<open>
  C8. On a cluster whose leader \<^verbatim>\<open>node1\<close> is down and whose best candidate is
  \<^verbatim>\<open>node0\<close>, with a shell on which the promotion succeeds and the reconfiguration of
  \<^verbatim>\<open>node2\<close> fails with an error message that is not UTF-8, the cycle promotes
  \<^verbatim>\<open>node0\<close>, runs the reconfiguration command of \<^verbatim>\<open>node2\<close> and raises
  \<^verbatim>\<open>UnicodeDecodeError\<close> from the handler of that failure. The command of \<^verbatim>\<open>node3\<close>,
  which is healthy and is not the new leader, is never run: the failure on one node has
  ended the dispatch to the remaining nodes.
\<close>

theorem replication_dispatch_aborts:
  "main_cycle cfg0 all_but_node1 run_garbled 100 four_node_cluster = Inr aborted_outcome \<and>
   raised aborted_outcome = Some UnicodeDecodeError \<and>
   map fst (executed aborted_outcome) = [promotion_cmd node0, replication_cmd node0 node2] \<and>
   \<not> exit_ok run_garbled (replication_cmd node0 node2) \<and>
   healthy node3 \<and> name node3 \<noteq> name node0 \<and>
   replication_cmd node0 node3 \<notin> set (map fst (executed aborted_outcome))"
  using four_node_cycle_aborted
  by (simp add: example_defs promotion_cmd_def replication_cmd_def)

section \<open>Idempotence\<close>

text \<open>
  A failback withheld by the cooldown is requested by a later cycle once the cooldown has
  run out, with the same health results, the same healthy leader and the same orders:
  the first cycle, at time 125, requests nothing; the second, at time 130, requests the
  promotion of \<^verbatim>\<open>node0\<close>.
\<close>

theorem second_cycle_counterexample:
  "main_cycle cfg0 all_up run_ok 125 waiting_cluster = Inr blocked_outcome \<and>
   \<not> promotion_needed blocked_outcome \<and>
   map all_up (nodes (new_state blocked_outcome)) = map all_up (nodes waiting_cluster) \<and>
   get_current_leader (nodes (new_state blocked_outcome)) = Some (node1\<lparr>healthy := True\<rparr>) \<and>
   healthy (node1\<lparr>healthy := True\<rparr>) \<and>
   map failover_order (nodes (new_state blocked_outcome)) = map failover_order (nodes waiting_cluster) \<and>
   promotion_requested (main_cycle cfg0 all_up run_ok 130 (new_state blocked_outcome))"
  by (simp add: waiting_defs example_defs cycle_defs promotion_requested_def)

text \<open>
  C9 (amended). A cycle is run, its promotion command (if one ran) succeeded, and the
  cluster it leaves has a healthy leader; a second cycle follows with the same health
  results. The second cycle requests a promotion only when the first requested none, the
  cooldown was still running at the first cycle and has run out at the second; the
  request is then a failback. So the second cycle requests nothing after a promotion, and
  nothing when the cooldown had already run out at the first cycle or is still running at
  the second.
\<close>

theorem second_cycle_requests:
  assumes "main_cycle cfg probe1 run1 now1 s = Inr r1"
    and "promotion_needed r1 \<longrightarrow> promotion_succeeded r1"
    and "map probe2 (nodes (new_state r1)) = map probe1 (nodes s)"
    and "get_current_leader (nodes (new_state r1)) = Some l" and "healthy l"
  shows "(promotion_requested (main_cycle cfg probe2 run2 now2 (new_state r1)) \<longrightarrow>
            \<not> promotion_needed r1 \<and>
            failback_requested (main_cycle cfg probe2 run2 now2 (new_state r1)) \<and>
            now1 - last_promotion_time s < promotion_cooldown cfg \<and>
            promotion_cooldown cfg \<le> now2 - last_promotion_time s) \<and>
         (promotion_needed r1 \<or> promotion_cooldown cfg \<le> now1 - last_promotion_time s \<or>
          now2 - last_promotion_time s < promotion_cooldown cfg \<longrightarrow>
            \<not> promotion_requested (main_cycle cfg probe2 run2 now2 (new_state r1)))"
proof -
  let ?ns = "update_health probe1 (nodes s)"
  let ?c2 = "main_cycle cfg probe2 run2 now2 (new_state r1)"
  obtain needed why where
    d: "decide_promotion cfg now1 (last_promotion_time s) (get_current_leader ?ns)
          (get_best_candidate ?ns) = Inr (needed, why)"
    and r: "r1 = perform_promotion cfg run1 now1 ?ns (last_promotion_time s) needed why
                   (get_best_candidate ?ns)"
    using main_cycle_Inr [OF assms(1)] by auto
  have needed: "promotion_needed r1 = needed" by (subst r) simp
  have main: "promotion_requested ?c2 \<longrightarrow>
            \<not> promotion_needed r1 \<and> failback_requested ?c2 \<and>
            now1 - last_promotion_time s < promotion_cooldown cfg \<and>
            promotion_cooldown cfg \<le> now2 - last_promotion_time s"
  proof (cases needed)
    case True
    with assms(2) needed have "promotion_succeeded r1" by simp
    then have "promotion_succeeded (perform_promotion cfg run1 now1 ?ns (last_promotion_time s)
                   needed why (get_best_candidate ?ns))"
      using r by simp
    from promotion_succeeded_cases [OF this] obtain b where
      b: "get_best_candidate ?ns = Some b" and ok: "promote_node run1 b"
      by blast
    have st: "new_state r1 = \<lparr>nodes = update_roles ?ns (name b), last_promotion_time = now1\<rparr>"
      by (subst r) (simp add: True b perform_promotion_success [OF ok])
    have "map probe2 (update_roles ?ns (name b)) = map healthy (update_roles ?ns (name b))"
      using assms(3) st by (simp add: map_healthy_update_roles map_healthy_update_health)
    then have same: "update_health probe2 (nodes (new_state r1)) = update_roles ?ns (name b)"
      using st by (simp add: update_health_same)
    have l: "get_current_leader (update_roles ?ns (name b)) = Some l"
      using assms(4) st by simp
    from no_request_after_promotion [OF b l assms(5), of cfg now2 "last_promotion_time (new_state r1)"]
    have "\<not> promotion_requested ?c2"
      by (auto simp: promotion_requested_decide same)
    then show ?thesis by simp
  next
    case False
    have st: "new_state r1 = \<lparr>nodes = ?ns, last_promotion_time = last_promotion_time s\<rparr>"
      by (subst r) (simp add: False perform_promotion_not_needed)
    have "map probe2 ?ns = map healthy ?ns"
      using assms(3) st by (simp add: map_healthy_update_health)
    then have same: "update_health probe2 (nodes (new_state r1)) = ?ns"
      using st by (simp add: update_health_same)
    have l: "get_current_leader ?ns = Some l" using assms(4) st by simp
    show ?thesis
    proof
      assume "promotion_requested ?c2"
      then obtain why2 where d2: "decide_promotion cfg now2 (last_promotion_time s)
          (Some l) (get_best_candidate ?ns) = Inr (True, why2)"
        using same st l by (auto simp: promotion_requested_decide)
      from d False l have d1: "decide_promotion cfg now1 (last_promotion_time s)
          (Some l) (get_best_candidate ?ns) = Inr (False, why)" by simp
      from decide_healthy_leader_later [OF assms(5) d1 d2]
      have w: "why2 = Failback" "now1 - last_promotion_time s < promotion_cooldown cfg"
        "promotion_cooldown cfg \<le> now2 - last_promotion_time s" by simp_all
      have "failback_requested ?c2"
        using d2 w(1) same st l by (simp add: failback_requested_decide)
      with w needed False show "\<not> promotion_needed r1 \<and> failback_requested ?c2 \<and>
            now1 - last_promotion_time s < promotion_cooldown cfg \<and>
            promotion_cooldown cfg \<le> now2 - last_promotion_time s" by simp
    qed
  qed
  then show ?thesis by auto
qed

theorem second_cycle_requests_witness:
  "main_cycle cfg0 all_but_node1 run_ok 100 leader_down_cluster = Inr (promoted_outcome True) \<and>
   promotion_needed (promoted_outcome True) \<and> promotion_succeeded (promoted_outcome True) \<and>
   map all_but_node1 (nodes (new_state (promoted_outcome True)))
     = map all_but_node1 (nodes leader_down_cluster) \<and>
   get_current_leader (nodes (new_state (promoted_outcome True))) = Some (node2\<lparr>role := ''leader''\<rparr>) \<and>
   healthy (node2\<lparr>role := ''leader''\<rparr>) \<and>
   \<not> promotion_requested (main_cycle cfg0 all_but_node1 run_ok 140 (new_state (promoted_outcome True)))"
proof -
  have n: "promotion_needed (promoted_outcome True)" by (simp add: promoted_outcome_def)
  have p: "promotion_succeeded (promoted_outcome True)"
    by (simp add: promoted_outcome_def promotion_succeeded_def)
  have m: "map all_but_node1 (nodes (new_state (promoted_outcome True)))
     = map all_but_node1 (nodes leader_down_cluster)"
    by (simp add: example_defs)
  have l: "get_current_leader (nodes (new_state (promoted_outcome True))) = Some (node2\<lparr>role := ''leader''\<rparr>)"
    using promoted_state_leader by (simp add: promoted_outcome_def)
  have h: "healthy (node2\<lparr>role := ''leader''\<rparr>)" by (simp add: node2_def)
  from n p have np: "promotion_needed (promoted_outcome True) \<longrightarrow> promotion_succeeded (promoted_outcome True)"
    by simp
  from second_cycle_requests [OF leader_down_cycle_promoted np m l h, of run_ok 140] n
  have "\<not> promotion_requested (main_cycle cfg0 all_but_node1 run_ok 140 (new_state (promoted_outcome True)))"
    by blast
  with leader_down_cycle_promoted n p m l h show ?thesis by blast
qed


end
